theory Spec2Isabelle
  imports Main
begin

section \<open>Symbols, statistics and typed symbols\<close>

text \<open>
  Modelled from the spec: the classes \<open>Symbol\<close>, \<open>SymbolStatistics\<close>, \<open>Branch\<close>,
  \<open>Tag\<close> and \<open>ExcludedSymbol\<close> are imported by \<open>symbol_strategy.py\<close> and not
  defined in it. A symbol is a name with an opaque numeric id; a statistics object
  carries its symbol and the three counters the rules read; a typed symbol is one of
  three cases, each wrapping the symbol it was built from. The counters are Python
  integers, hence \<open>int\<close>.
\<close>

record symbol =
  name :: string
  ident :: int

record symbol_stats =
  symbol :: symbol
  tag_create_count :: int
  branch_create_count :: int
  branch_commit_count :: int

datatype typed_symbol = Branch symbol | Tag symbol | ExcludedSymbol symbol

text \<open>
  The \<open>action\<close> of a regexp rule is one of the three classes, used as a constructor:
  \<open>self.action(stats.symbol)\<close>.
\<close>

datatype symbol_class = BranchClass | TagClass | ExcludedSymbolClass

fun construct :: "symbol_class \<Rightarrow> symbol \<Rightarrow> typed_symbol" where
  "construct BranchClass smb = Branch smb"
| "construct TagClass smb = Tag smb"
| "construct ExcludedSymbolClass smb = ExcludedSymbol smb"

fun symbol_of :: "typed_symbol \<Rightarrow> symbol" where
  "symbol_of (Branch smb) = smb"
| "symbol_of (Tag smb) = smb"
| "symbol_of (ExcludedSymbol smb) = smb"

section \<open>The regular expressions of Python's \<open>re\<close> module\<close>

text \<open>
  \<open>re.compile\<close> and \<open>regexp.match\<close> belong to Python's standard library. They are
  modelled here for a fragment of the pattern syntax: ordinary characters, \<open>.\<close>,
  the anchors \<open>^\<close> and \<open>$\<close>, the postfix operators \<open>*\<close>, \<open>+\<close> and \<open>?\<close>
  (with an optional lazy marker \<open>?\<close>), alternation \<open>|\<close>, groups \<open>( )\<close> and a
  backslash before a character that is neither a letter nor a digit. No flag is set, as
  in the source: \<open>.\<close> does not match a newline, \<open>^\<close> matches at the start of the
  string only, and \<open>$\<close> matches at the end of the string and just before a newline
  that ends the string.

  Everything else (character sets \<open>[...]\<close>, counted repetition \<open>{m,n}\<close>, the
  extensions \<open>(?...)\<close>, a backslash before a letter or a digit, possessive operators,
  and an operator applied to an item that can match the empty string, which the versions
  of the library treat differently) is outside the fragment: for such a pattern
  the model answers \<open>Unmodelled\<close> and states nothing.
\<close>

datatype regex =
    RLit char
  | RAny
  | RBol
  | REol
  | REmpty
  | RCat regex regex
  | RAlt regex regex
  | RStar regex
  | RPlus regex
  | ROpt regex
  | RGroup regex

datatype 'a compiled = Compiled 'a | ReError | Unmodelled

primrec nullable :: "regex \<Rightarrow> bool" where
  "nullable (RLit c) = False"
| "nullable RAny = False"
| "nullable RBol = True"
| "nullable REol = True"
| "nullable REmpty = True"
| "nullable (RCat r1 r2) = (nullable r1 \<and> nullable r2)"
| "nullable (RAlt r1 r2) = (nullable r1 \<or> nullable r2)"
| "nullable (RStar r) = True"
| "nullable (RPlus r) = nullable r"
| "nullable (ROpt r) = True"
| "nullable (RGroup r) = nullable r"

fun is_at :: "regex \<Rightarrow> bool" where
  "is_at RBol = True"
| "is_at REol = True"
| "is_at _ = False"

fun is_repeat :: "regex \<Rightarrow> bool" where
  "is_repeat (RStar r) = True"
| "is_repeat (RPlus r) = True"
| "is_repeat (ROpt r) = True"
| "is_repeat _ = False"

definition alnum :: "char \<Rightarrow> bool" where
  "alnum c = (let n = (of_char c :: nat) in
     (48 \<le> n \<and> n \<le> 57) \<or> (65 \<le> n \<and> n \<le> 90) \<or> (97 \<le> n \<and> n \<le> 122))"

fun mk_seq :: "regex list \<Rightarrow> regex" where
  "mk_seq [] = REmpty"
| "mk_seq (r # rs) = RCat r (mk_seq rs)"

fun mk_alt :: "regex list \<Rightarrow> regex" where
  "mk_alt [] = REmpty"
| "mk_alt [r] = r"
| "mk_alt (r # rs) = RAlt r (mk_alt rs)"

text \<open>
  While a pattern is read, \<open>alts\<close> holds the finished alternatives of the innermost
  open group and \<open>items\<close> the items of its current alternative, both latest first.
\<close>

definition close_group :: "regex list \<Rightarrow> regex list \<Rightarrow> regex" where
  "close_group alts items = mk_alt (rev (mk_seq (rev items) # alts))"

definition repeat :: "char \<Rightarrow> regex \<Rightarrow> regex" where
  "repeat c item =
     (if c = CHR ''*'' then RStar item
      else if c = CHR ''+'' then RPlus item
      else ROpt item)"

text \<open>
  The parser reads the pattern from left to right, as \<open>sre_parse\<close> does. \<open>stack\<close>
  holds the \<open>(alts, items)\<close> of the enclosing open groups; \<open>fresh\<close> says that the
  character just read was a greedy repetition operator, so that a \<open>?\<close> now marks it
  lazy. The errors are the library's: a backslash that ends the pattern, an unbalanced
  parenthesis, nothing to repeat (no item, or an anchor), and a multiple repeat.
\<close>

fun parse_re ::
  "(regex list \<times> regex list) list \<Rightarrow> regex list \<Rightarrow> regex list \<Rightarrow> bool \<Rightarrow> string
    \<Rightarrow> regex compiled" where
  "parse_re stack alts items fresh [] =
     (if stack = [] then Compiled (close_group alts items) else ReError)"
| "parse_re stack alts items fresh (c # cs) =
     (if c = CHR 0x5C then
        (case cs of
           [] \<Rightarrow> ReError
         | d # ds \<Rightarrow>
             if alnum d then Unmodelled
             else parse_re stack alts (RLit d # items) False ds)
      else if c = CHR ''('' then
        (case cs of
           [] \<Rightarrow> ReError
         | d # ds \<Rightarrow>
             if d = CHR ''?'' then Unmodelled
             else parse_re ((alts, items) # stack) [] [] False cs)
      else if c = CHR '')'' then
        (case stack of
           [] \<Rightarrow> ReError
         | (alts', items') # stack' \<Rightarrow>
             parse_re stack' alts' (RGroup (close_group alts items) # items') False cs)
      else if c = CHR ''|'' then
        parse_re stack (mk_seq (rev items) # alts) [] False cs
      else if c = CHR ''?'' \<and> fresh then
        parse_re stack alts items False cs
      else if c = CHR ''*'' \<or> c = CHR ''+'' \<or> c = CHR ''?'' then
        (case items of
           [] \<Rightarrow> ReError
         | item # items' \<Rightarrow>
             if is_at item then ReError
             else if is_repeat item then
               (if c = CHR ''+'' \<and> fresh then Unmodelled else ReError)
             else if nullable item then Unmodelled
             else parse_re stack alts (repeat c item # items') True cs)
      else if c = CHR ''['' \<or> c = CHR ''{'' then Unmodelled
      else if c = CHR ''.'' then parse_re stack alts (RAny # items) False cs
      else if c = CHR ''^'' then parse_re stack alts (RBol # items) False cs
      else if c = CHR ''$'' then parse_re stack alts (REol # items) False cs
      else parse_re stack alts (RLit c # items) False cs)"

definition re_compile :: "string \<Rightarrow> regex compiled" where
  "re_compile pattern = parse_re [] [] [] False pattern"

text \<open>
  Matching is by positions: \<open>re_ends r s ps\<close> lists the positions of \<open>s\<close> at which
  a match of \<open>r\<close> can end when it starts at one of the positions \<open>ps\<close>. A repeated
  item consumes at least one character (the parser sees to it), so \<open>length s + 1\<close>
  rounds reach every end position.
\<close>

definition newline :: char where
  "newline = CHR 0x0A"

fun rounds :: "nat \<Rightarrow> (nat list \<Rightarrow> nat list) \<Rightarrow> nat list \<Rightarrow> nat list" where
  "rounds 0 f ps = ps"
| "rounds (Suc n) f ps = (if ps = [] then [] else ps @ rounds n f (f ps))"

primrec re_ends :: "regex \<Rightarrow> string \<Rightarrow> nat list \<Rightarrow> nat list" where
  "re_ends (RLit c) s ps = map Suc (filter (\<lambda>i. i < length s \<and> s ! i = c) ps)"
| "re_ends RAny s ps = map Suc (filter (\<lambda>i. i < length s \<and> s ! i \<noteq> newline) ps)"
| "re_ends RBol s ps = filter (\<lambda>i. i = 0) ps"
| "re_ends REol s ps =
     filter (\<lambda>i. i = length s \<or> (Suc i = length s \<and> s ! i = newline)) ps"
| "re_ends REmpty s ps = ps"
| "re_ends (RCat r1 r2) s ps = re_ends r2 s (re_ends r1 s ps)"
| "re_ends (RAlt r1 r2) s ps = re_ends r1 s ps @ re_ends r2 s ps"
| "re_ends (RStar r) s ps = rounds (Suc (length s)) (re_ends r s) ps"
| "re_ends (RPlus r) s ps = rounds (Suc (length s)) (re_ends r s) (re_ends r s ps)"
| "re_ends (ROpt r) s ps = ps @ re_ends r s ps"
| "re_ends (RGroup r) s ps = re_ends r s ps"

text \<open>
  \<open>regexp.match(s)\<close> looks for a match that starts at the beginning of \<open>s\<close> and may
  end anywhere; the source uses its result as a truth value.
\<close>

definition re_match :: "regex \<Rightarrow> string \<Rightarrow> bool" where
  "re_match regexp s = (re_ends regexp s [0] \<noteq> [])"

text \<open>The pattern matches the whole of \<open>s\<close>: a match from the start ends at the end.\<close>

definition matches_entire :: "regex \<Rightarrow> string \<Rightarrow> bool" where
  "matches_entire regexp s = (length s \<in> set (re_ends regexp s [0]))"

text \<open>
  A character that the pattern syntax gives no special meaning: it stands for itself.
\<close>

definition ordinary :: "char \<Rightarrow> bool" where
  "ordinary c = (c \<notin> set [CHR 0x5C, CHR ''('', CHR '')'', CHR ''|'', CHR ''*'', CHR ''+'',
     CHR ''?'', CHR ''['', CHR ''{'', CHR ''.'', CHR ''^'', CHR ''$''])"

section \<open>Strategy rules\<close>

text \<open>
  \<open>StrategyRule\<close> is the interface of the rules: its own \<open>get_symbol\<close> only raises
  \<open>NotImplementedError\<close> and every subclass overrides it. A rule is one of the concrete
  classes of the source. The three regexp classes differ in the \<open>action\<close> they pass to
  \<open>_RegexpStrategyRule.__init__\<close> and in nothing else, so a regexp rule is its compiled
  \<open>regexp\<close> and its \<open>action\<close>.
\<close>

datatype strategy_rule =
    RegexpStrategyRule regex symbol_class
  | UnambiguousUsageRule
  | BranchIfCommitsRule
  | HeuristicStrategyRule
  | AllBranchRule
  | AllTagRule

text \<open>
  \<open>FatalError pattern\<close> is the exception
  \<open>FatalError("%r is not a valid regexp." % (pattern,))\<close>.
\<close>

datatype error = FatalError string

text \<open>
  \<open>_RegexpStrategyRule.__init__\<close>: the pattern is put between \<open>^\<close> and \<open>$\<close> and
  compiled; \<open>re.error\<close> becomes \<open>FatalError\<close>. The result is \<open>None\<close> where
  the pattern is outside the modelled fragment of the library.
\<close>

definition RegexpStrategyRule_init ::
  "string \<Rightarrow> symbol_class \<Rightarrow> (error + strategy_rule) option" where
  "RegexpStrategyRule_init pattern action =
     (case re_compile (''^'' @ pattern @ ''$'') of
        Compiled regexp \<Rightarrow> Some (Inr (RegexpStrategyRule regexp action))
      | ReError \<Rightarrow> Some (Inl (FatalError pattern))
      | Unmodelled \<Rightarrow> None)"

definition ForceBranchRegexpStrategyRule :: "string \<Rightarrow> (error + strategy_rule) option" where
  "ForceBranchRegexpStrategyRule pattern = RegexpStrategyRule_init pattern BranchClass"

definition ForceTagRegexpStrategyRule :: "string \<Rightarrow> (error + strategy_rule) option" where
  "ForceTagRegexpStrategyRule pattern = RegexpStrategyRule_init pattern TagClass"

definition ExcludeRegexpStrategyRule :: "string \<Rightarrow> (error + strategy_rule) option" where
  "ExcludeRegexpStrategyRule pattern = RegexpStrategyRule_init pattern ExcludedSymbolClass"

section \<open>The program state\<close>

text \<open>
  Python passes objects by reference. The state holds what the methods can reach:
  the \<open>_rules\<close> list of the \<open>RuleBasedSymbolStrategy\<close> object, the statistics
  objects (a reference is an address of the store \<open>objects\<close>), and what has been
  written to \<open>sys.stderr\<close>. Every method takes the state and returns it with its
  result.

  \<open>error_prefix\<close> and the \<open>__str__\<close> of a statistics object are defined outside
  this file, so a write to \<open>sys.stderr\<close> is recorded by what it prints:
  \<open>AmbiguityHeader\<close> is the message that starts with \<open>error_prefix\<close> and asks for
  \<open>--force-tag\<close>, \<open>--force-branch\<close>, \<open>--exclude\<close> or \<open>--symbol-default\<close>;
  \<open>MismatchLine stats\<close> is the line \<open>"    %s\n" % stats\<close>.
\<close>

type_synonym ref = nat

datatype stderr_write = AmbiguityHeader | MismatchLine symbol_stats

record state =
  rules :: "strategy_rule list"
  objects :: "ref \<Rightarrow> symbol_stats"
  stderr :: "stderr_write list"

text \<open>\<open>get_symbol\<close> of each rule class; \<open>None\<close> is Python's \<open>None\<close>.\<close>

fun get_symbol :: "strategy_rule \<Rightarrow> ref \<Rightarrow> state \<Rightarrow> typed_symbol option \<times> state" where
  "get_symbol (RegexpStrategyRule regexp action) stats s =
     (if re_match regexp (name (symbol (objects s stats)))
      then (Some (construct action (symbol (objects s stats))), s)
      else (None, s))"
| "get_symbol UnambiguousUsageRule stats s =
     (let is_tag = tag_create_count (objects s stats) > 0;
          is_branch = (branch_create_count (objects s stats) > 0
                       \<or> branch_commit_count (objects s stats) > 0)
      in if is_tag \<and> is_branch then (None, s)
         else if is_branch then (Some (Branch (symbol (objects s stats))), s)
         else if is_tag then (Some (Tag (symbol (objects s stats))), s)
         else (None, s))"
| "get_symbol BranchIfCommitsRule stats s =
     (if branch_commit_count (objects s stats) > 0
      then (Some (Branch (symbol (objects s stats))), s)
      else (None, s))"
| "get_symbol HeuristicStrategyRule stats s =
     (if tag_create_count (objects s stats) \<ge> branch_create_count (objects s stats)
      then (Some (Tag (symbol (objects s stats))), s)
      else (Some (Branch (symbol (objects s stats))), s))"
| "get_symbol AllBranchRule stats s = (Some (Branch (symbol (objects s stats))), s)"
| "get_symbol AllTagRule stats s = (Some (Tag (symbol (objects s stats))), s)"

section \<open>The rule-based strategy\<close>

definition RuleBasedSymbolStrategy_init :: "state \<Rightarrow> state" where
  "RuleBasedSymbolStrategy_init s = s\<lparr>rules := []\<rparr>"

definition add_rule :: "strategy_rule \<Rightarrow> state \<Rightarrow> state" where
  "add_rule rule s = s\<lparr>rules := rules s @ [rule]\<rparr>"

text \<open>
  \<open>RuleBasedSymbolStrategy._get_symbol\<close>: the \<open>for\<close> loop over \<open>self._rules\<close>
  returns from inside at the first result that is not \<open>None\<close>; its \<open>else\<close> branch
  runs when the list is exhausted.
\<close>

fun for_rules :: "strategy_rule list \<Rightarrow> ref \<Rightarrow> state \<Rightarrow> typed_symbol option \<times> state" where
  "for_rules [] stats s = (None, s)"
| "for_rules (rule # rest) stats s =
     (case get_symbol rule stats s of
        (Some smb, s') \<Rightarrow> (Some smb, s')
      | (None, s') \<Rightarrow> for_rules rest stats s')"

definition strategy_get_symbol :: "ref \<Rightarrow> state \<Rightarrow> typed_symbol option \<times> state" where
  "strategy_get_symbol stats s = for_rules (rules s) stats s"

text \<open>
  \<open>RuleBasedSymbolStrategy.get_symbols\<close>: the first loop fills \<open>symbols\<close> and
  \<open>mismatches\<close>; if there are mismatches, the header and one line for each are
  written and \<open>None\<close> is returned, otherwise \<open>symbols\<close>.
\<close>

fun for_stats ::
  "ref list \<Rightarrow> typed_symbol list \<Rightarrow> ref list \<Rightarrow> state
    \<Rightarrow> (typed_symbol list \<times> ref list) \<times> state" where
  "for_stats [] symbols mismatches s = ((symbols, mismatches), s)"
| "for_stats (stats # rest) symbols mismatches s =
     (case strategy_get_symbol stats s of
        (Some smb, s') \<Rightarrow> for_stats rest (symbols @ [smb]) mismatches s'
      | (None, s') \<Rightarrow> for_stats rest symbols (mismatches @ [stats]) s')"

fun for_mismatches :: "ref list \<Rightarrow> state \<Rightarrow> state" where
  "for_mismatches [] s = s"
| "for_mismatches (stats # rest) s =
     for_mismatches rest (s\<lparr>stderr := stderr s @ [MismatchLine (objects s stats)]\<rparr>)"

definition get_symbols :: "ref list \<Rightarrow> state \<Rightarrow> typed_symbol list option \<times> state" where
  "get_symbols symbol_stats s =
     (case for_stats symbol_stats [] [] s of
        ((symbols, mismatches), s') \<Rightarrow>
          if mismatches \<noteq> [] then
            (None, for_mismatches mismatches (s'\<lparr>stderr := stderr s' @ [AmbiguityHeader]\<rparr>))
          else (Some symbols, s'))"

text \<open>
  A statistics object is a mismatch when every rule of the chain returns \<open>None\<close>
  for it.
\<close>

definition unmatched :: "state \<Rightarrow> ref \<Rightarrow> bool" where
  "unmatched s stats = list_all (\<lambda>rule. fst (get_symbol rule stats s) = None) (rules s)"

section \<open>Example inputs\<close>

text \<open>
  Four statistics objects: one used as a tag only, one created both as a tag and as
  a branch, one used as a branch with commits, and one that was never used.
\<close>

definition example_stats :: "string \<Rightarrow> int \<Rightarrow> int \<Rightarrow> int \<Rightarrow> int \<Rightarrow> symbol_stats" where
  "example_stats n i tags branches commits =
     \<lparr>symbol = \<lparr>name = n, ident = i\<rparr>, tag_create_count = tags,
      branch_create_count = branches, branch_commit_count = commits\<rparr>"

fun example_objects :: "ref \<Rightarrow> symbol_stats" where
  "example_objects 0 = example_stats ''rel-1'' 1 3 0 0"
| "example_objects (Suc 0) = example_stats ''mixed'' 2 2 2 0"
| "example_objects (Suc (Suc 0)) = example_stats ''devel'' 3 0 1 4"
| "example_objects _ = example_stats ''unused'' 4 0 0 0"

definition example_state :: "strategy_rule list \<Rightarrow> state" where
  "example_state rs = \<lparr>rules = rs, objects = example_objects, stderr = []\<rparr>"

text \<open>A state in which every reference leads to a symbol named \<open>n\<close>.\<close>

definition named_state :: "string \<Rightarrow> state" where
  "named_state n = \<lparr>rules = [], objects = (\<lambda>stats. example_stats n 0 0 0 0), stderr = []\<rparr>"

section \<open>Properties of the loops\<close>

lemma get_symbol_state: "snd (get_symbol rule stats s) = s"
  by (cases rule) (simp_all add: Let_def)

lemma for_rules_state: "snd (for_rules rs stats s) = s"
proof (induction rs)
  case Nil
  show ?case by simp
next
  case (Cons rule rest)
  obtain r where r: "get_symbol rule stats s = (r, s)"
    using get_symbol_state [of rule stats s] by (cases "get_symbol rule stats s") simp
  show ?case using Cons r by (cases r) simp_all
qed

lemma strategy_get_symbol_state: "snd (strategy_get_symbol stats s) = s"
  by (simp add: strategy_get_symbol_def for_rules_state)

lemma for_rules_first:
  assumes "list_all (\<lambda>q. fst (get_symbol q stats s) = None) before"
    and "fst (get_symbol rule stats s) = Some smb"
  shows "for_rules (before @ rule # after) stats s = (Some smb, s)"
  using assms
proof (induction before)
  case Nil
  then show ?case
    using get_symbol_state [of rule stats s] by (cases "get_symbol rule stats s") simp
next
  case (Cons q qs)
  then show ?case
    using get_symbol_state [of q stats s] by (cases "get_symbol q stats s") simp
qed

lemma for_rules_none:
  "(fst (for_rules rs stats s) = None) = list_all (\<lambda>q. fst (get_symbol q stats s) = None) rs"
proof (induction rs)
  case Nil
  show ?case by simp
next
  case (Cons q qs)
  obtain r where r: "get_symbol q stats s = (r, s)"
    using get_symbol_state [of q stats s] by (cases "get_symbol q stats s") simp
  show ?case using Cons r by (cases r) simp_all
qed

lemma for_mismatches_eq:
  "for_mismatches ms s = s\<lparr>stderr := stderr s @ map (\<lambda>stats. MismatchLine (objects s stats)) ms\<rparr>"
  by (induction ms arbitrary: s) simp_all

lemma for_stats_eq:
  "for_stats xs symbols mismatches s =
     ((symbols @ map (\<lambda>stats. the (fst (strategy_get_symbol stats s)))
                  (filter (\<lambda>stats. fst (strategy_get_symbol stats s) \<noteq> None) xs),
       mismatches @ filter (\<lambda>stats. fst (strategy_get_symbol stats s) = None) xs), s)"
proof (induction xs arbitrary: symbols mismatches)
  case Nil
  show ?case by simp
next
  case (Cons stats rest)
  obtain r where r: "strategy_get_symbol stats s = (r, s)"
    using strategy_get_symbol_state [of stats s] by (cases "strategy_get_symbol stats s") simp
  show ?case using Cons r by (cases r) simp_all
qed

lemma fold_add_rule: "rules (fold add_rule rs s) = rules s @ rs"
  by (induction rs arbitrary: s) (simp_all add: add_rule_def)

section \<open>What the chain computes\<close>

lemma strategy_get_symbol_none:
  "(fst (strategy_get_symbol stats s) = None) = unmatched s stats"
  by (simp add: strategy_get_symbol_def unmatched_def for_rules_none)

lemma get_symbols_eq:
  "get_symbols symbol_stats s =
     (if filter (unmatched s) symbol_stats \<noteq> [] then
        (None, s\<lparr>stderr := stderr s @ AmbiguityHeader #
                  map (\<lambda>stats. MismatchLine (objects s stats)) (filter (unmatched s) symbol_stats)\<rparr>)
      else (Some (map (\<lambda>stats. the (fst (strategy_get_symbol stats s))) symbol_stats), s))"
proof -
  have f: "filter (\<lambda>stats. fst (strategy_get_symbol stats s) = None) symbol_stats
            = filter (unmatched s) symbol_stats"
    by (simp add: strategy_get_symbol_none)
  show ?thesis
  proof (cases "filter (unmatched s) symbol_stats = []")
    case True
    then have "\<forall>stats \<in> set symbol_stats. fst (strategy_get_symbol stats s) \<noteq> None"
      by (simp add: filter_empty_conv strategy_get_symbol_none)
    then have "filter (\<lambda>stats. fst (strategy_get_symbol stats s) \<noteq> None) symbol_stats = symbol_stats"
      by (simp add: filter_id_conv)
    with True f show ?thesis
      by (simp add: get_symbols_def for_stats_eq)
  next
    case False
    with f show ?thesis
      by (simp add: get_symbols_def for_stats_eq for_mismatches_eq)
  qed
qed

section \<open>The order of the rules\<close>

lemma compile_rel:
  "re_compile ''^rel-.*$'' =
     Compiled (RCat RBol (RCat (RLit CHR ''r'') (RCat (RLit CHR ''e'') (RCat (RLit CHR ''l'')
       (RCat (RLit CHR ''-'') (RCat (RStar RAny) (RCat REol REmpty)))))))"
  by code_simp

lemma match_rel:
  "re_match (RCat RBol (RCat (RLit CHR ''r'') (RCat (RLit CHR ''e'') (RCat (RLit CHR ''l'')
       (RCat (RLit CHR ''-'') (RCat (RStar RAny) (RCat REol REmpty))))))) ''rel-1''"
  by code_simp

lemma force_tag_rel:
  "ForceTagRegexpStrategyRule ''rel-.*'' =
     Some (Inr (RegexpStrategyRule
       (RCat RBol (RCat (RLit CHR ''r'') (RCat (RLit CHR ''e'') (RCat (RLit CHR ''l'')
       (RCat (RLit CHR ''-'') (RCat (RStar RAny) (RCat REol REmpty))))))) TagClass))"
  using compile_rel by (simp add: ForceTagRegexpStrategyRule_def RegexpStrategyRule_init_def)

text \<open>
  Claim C1. The rules of a chain are the rules that were added, in the order of the
  \<open>add_rule\<close> calls. If the rules before \<open>rule\<close> all return \<open>None\<close> for a
  statistics object and \<open>rule\<close> returns a typed symbol, the chain returns that typed
  symbol, whatever rules come after it. For the chain built by adding
  \<open>ForceTagRegexpStrategyRule("rel-.*")\<close> and then \<open>AllBranchRule\<close>, a symbol named
  \<open>rel-1\<close> becomes a \<open>Tag\<close>; for the chain built in the other order it becomes a
  \<open>Branch\<close>.
\<close>

theorem rule_order_first_match:
  "(\<forall>s0 rs. rules (fold add_rule rs (RuleBasedSymbolStrategy_init s0)) = rs)
   \<and> (\<forall>s before rule after stats smb.
        rules s = before @ rule # after \<longrightarrow>
        list_all (\<lambda>q. fst (get_symbol q stats s) = None) before \<longrightarrow>
        fst (get_symbol rule stats s) = Some smb \<longrightarrow>
        strategy_get_symbol stats s = (Some smb, s))
   \<and> (\<forall>s0 stats. name (symbol (objects s0 stats)) = ''rel-1'' \<longrightarrow>
        (\<exists>force_tag. ForceTagRegexpStrategyRule ''rel-.*'' = Some (Inr force_tag)
           \<and> fst (strategy_get_symbol stats
                 (fold add_rule [force_tag, AllBranchRule] (RuleBasedSymbolStrategy_init s0)))
               = Some (Tag (symbol (objects s0 stats)))
           \<and> fst (strategy_get_symbol stats
                 (fold add_rule [AllBranchRule, force_tag] (RuleBasedSymbolStrategy_init s0)))
               = Some (Branch (symbol (objects s0 stats)))))"
proof (intro conjI allI impI)
  fix s0 :: state and rs
  show "rules (fold add_rule rs (RuleBasedSymbolStrategy_init s0)) = rs"
    by (simp add: fold_add_rule RuleBasedSymbolStrategy_init_def)
next
  fix s :: state and before rule after stats smb
  assume "rules s = before @ rule # after"
    and "list_all (\<lambda>q. fst (get_symbol q stats s) = None) before"
    and "fst (get_symbol rule stats s) = Some smb"
  then show "strategy_get_symbol stats s = (Some smb, s)"
    by (simp add: strategy_get_symbol_def for_rules_first)
next
  fix s0 :: state and stats
  assume n: "name (symbol (objects s0 stats)) = ''rel-1''"
  let ?r = "RegexpStrategyRule
       (RCat RBol (RCat (RLit CHR ''r'') (RCat (RLit CHR ''e'') (RCat (RLit CHR ''l'')
       (RCat (RLit CHR ''-'') (RCat (RStar RAny) (RCat REol REmpty))))))) TagClass"
  have tag: "fst (strategy_get_symbol stats
                 (fold add_rule [?r, AllBranchRule] (RuleBasedSymbolStrategy_init s0)))
               = Some (Tag (symbol (objects s0 stats)))"
    using n match_rel
    by (simp add: strategy_get_symbol_def add_rule_def RuleBasedSymbolStrategy_init_def)
  have branch: "fst (strategy_get_symbol stats
                 (fold add_rule [AllBranchRule, ?r] (RuleBasedSymbolStrategy_init s0)))
               = Some (Branch (symbol (objects s0 stats)))"
    by (simp add: strategy_get_symbol_def add_rule_def RuleBasedSymbolStrategy_init_def)
  show "\<exists>force_tag. ForceTagRegexpStrategyRule ''rel-.*'' = Some (Inr force_tag)
           \<and> fst (strategy_get_symbol stats
                 (fold add_rule [force_tag, AllBranchRule] (RuleBasedSymbolStrategy_init s0)))
               = Some (Tag (symbol (objects s0 stats)))
           \<and> fst (strategy_get_symbol stats
                 (fold add_rule [AllBranchRule, force_tag] (RuleBasedSymbolStrategy_init s0)))
               = Some (Branch (symbol (objects s0 stats)))"
    using force_tag_rel tag branch by blast
qed

text \<open>
  The hypotheses of C1 hold for the chain \<open>[UnambiguousUsageRule, AllBranchRule,
  AllTagRule]\<close> and the symbol \<open>mixed\<close>, which the first rule cannot decide, and for
  the example symbol \<open>rel-1\<close>.
\<close>

theorem rule_order_first_match_witness:
  "rules (example_state [UnambiguousUsageRule, AllBranchRule, AllTagRule])
     = [UnambiguousUsageRule] @ AllBranchRule # [AllTagRule]
   \<and> list_all (\<lambda>q. fst (get_symbol q 1
         (example_state [UnambiguousUsageRule, AllBranchRule, AllTagRule])) = None)
       [UnambiguousUsageRule]
   \<and> fst (get_symbol AllBranchRule 1
         (example_state [UnambiguousUsageRule, AllBranchRule, AllTagRule]))
       = Some (Branch \<lparr>name = ''mixed'', ident = 2\<rparr>)
   \<and> strategy_get_symbol 1 (example_state [UnambiguousUsageRule, AllBranchRule, AllTagRule])
       = (Some (Branch \<lparr>name = ''mixed'', ident = 2\<rparr>),
          example_state [UnambiguousUsageRule, AllBranchRule, AllTagRule])
   \<and> name (symbol (objects (example_state []) 0)) = ''rel-1''
   \<and> (\<exists>force_tag. ForceTagRegexpStrategyRule ''rel-.*'' = Some (Inr force_tag)
        \<and> fst (strategy_get_symbol 0
              (fold add_rule [force_tag, AllBranchRule]
                 (RuleBasedSymbolStrategy_init (example_state []))))
            = Some (Tag \<lparr>name = ''rel-1'', ident = 1\<rparr>)
        \<and> fst (strategy_get_symbol 0
              (fold add_rule [AllBranchRule, force_tag]
                 (RuleBasedSymbolStrategy_init (example_state []))))
            = Some (Branch \<lparr>name = ''rel-1'', ident = 1\<rparr>))"
proof -
  let ?s = "example_state [UnambiguousUsageRule, AllBranchRule, AllTagRule]"
  have h1: "rules ?s = [UnambiguousUsageRule] @ AllBranchRule # [AllTagRule]"
    by (simp add: example_state_def)
  have h2: "list_all (\<lambda>q. fst (get_symbol q 1 ?s) = None) [UnambiguousUsageRule]"
    by (simp add: example_state_def example_stats_def)
  have h3: "fst (get_symbol AllBranchRule 1 ?s) = Some (Branch \<lparr>name = ''mixed'', ident = 2\<rparr>)"
    by (simp add: example_state_def example_stats_def)
  have c1: "strategy_get_symbol 1 ?s = (Some (Branch \<lparr>name = ''mixed'', ident = 2\<rparr>), ?s)"
    using rule_order_first_match h1 h2 h3 by blast
  have h4: "name (symbol (objects (example_state []) 0)) = ''rel-1''"
    by (simp add: example_state_def example_stats_def)
  have s: "symbol (objects (example_state []) 0) = \<lparr>name = ''rel-1'', ident = 1\<rparr>"
    by (simp add: example_state_def example_stats_def)
  have c2: "\<exists>force_tag. ForceTagRegexpStrategyRule ''rel-.*'' = Some (Inr force_tag)
        \<and> fst (strategy_get_symbol 0
              (fold add_rule [force_tag, AllBranchRule]
                 (RuleBasedSymbolStrategy_init (example_state []))))
            = Some (Tag (symbol (objects (example_state []) 0)))
        \<and> fst (strategy_get_symbol 0
              (fold add_rule [AllBranchRule, force_tag]
                 (RuleBasedSymbolStrategy_init (example_state []))))
            = Some (Branch (symbol (objects (example_state []) 0)))"
    using rule_order_first_match h4 by blast
  show ?thesis using h1 h2 h3 c1 h4 c2 unfolding s by blast
qed

section \<open>Mismatches are reported together\<close>

text \<open>
  Claim C2. If at least one statistics object of the input is a mismatch,
  \<open>get_symbols\<close> returns \<open>None\<close> (no list of typed symbols at all) and has written
  the header and one line for every mismatch of the input, in input order, to
  \<open>sys.stderr\<close>. If no object is a mismatch, it returns the list of what the chain
  answers for each object and writes nothing.
\<close>

theorem get_symbols_all_or_nothing:
  "(\<forall>symbol_stats s.
      (\<exists>stats \<in> set symbol_stats. unmatched s stats) \<longrightarrow>
      get_symbols symbol_stats s =
        (None, s\<lparr>stderr := stderr s @ AmbiguityHeader #
                  map (\<lambda>stats. MismatchLine (objects s stats))
                    (filter (unmatched s) symbol_stats)\<rparr>))
   \<and> (\<forall>symbol_stats s.
      list_all (\<lambda>stats. \<not> unmatched s stats) symbol_stats \<longrightarrow>
      (\<exists>symbols. get_symbols symbol_stats s = (Some symbols, s)
         \<and> map Some symbols = map (\<lambda>stats. fst (strategy_get_symbol stats s)) symbol_stats))"
proof (intro conjI allI impI)
  fix symbol_stats and s :: state
  assume "\<exists>stats \<in> set symbol_stats. unmatched s stats"
  then have "filter (unmatched s) symbol_stats \<noteq> []"
    by (simp add: filter_empty_conv)
  then show "get_symbols symbol_stats s =
        (None, s\<lparr>stderr := stderr s @ AmbiguityHeader #
                  map (\<lambda>stats. MismatchLine (objects s stats))
                    (filter (unmatched s) symbol_stats)\<rparr>)"
    by (simp add: get_symbols_eq)
next
  fix symbol_stats and s :: state
  assume a: "list_all (\<lambda>stats. \<not> unmatched s stats) symbol_stats"
  then have e: "filter (unmatched s) symbol_stats = []"
    by (simp add: filter_empty_conv list_all_iff)
  have "map Some (map (\<lambda>stats. the (fst (strategy_get_symbol stats s))) symbol_stats)
          = map (\<lambda>stats. fst (strategy_get_symbol stats s)) symbol_stats"
    using a by (auto simp: list_all_iff strategy_get_symbol_none [symmetric])
  with e show "\<exists>symbols. get_symbols symbol_stats s = (Some symbols, s)
         \<and> map Some symbols = map (\<lambda>stats. fst (strategy_get_symbol stats s)) symbol_stats"
    by (simp add: get_symbols_eq)
qed

text \<open>
  Three symbols of which exactly one (\<open>mixed\<close>) matches no rule of a chain without
  a catch-all: the call fails and names that one symbol; without it the call succeeds.
\<close>

lemma example_unmatched:
  "\<not> unmatched (example_state [UnambiguousUsageRule]) 0"
  "unmatched (example_state [UnambiguousUsageRule]) (Suc 0)"
  "\<not> unmatched (example_state [UnambiguousUsageRule]) (Suc (Suc 0))"
  by (simp_all add: unmatched_def example_state_def example_stats_def)

theorem get_symbols_all_or_nothing_witness:
  "(\<exists>stats \<in> set [0, Suc 0, Suc (Suc 0)]. unmatched (example_state [UnambiguousUsageRule]) stats)
   \<and> get_symbols [0, Suc 0, Suc (Suc 0)] (example_state [UnambiguousUsageRule])
       = (None, (example_state [UnambiguousUsageRule])
            \<lparr>stderr := [AmbiguityHeader, MismatchLine (example_stats ''mixed'' 2 2 2 0)]\<rparr>)
   \<and> list_all (\<lambda>stats. \<not> unmatched (example_state [UnambiguousUsageRule]) stats)
        [0, Suc (Suc 0)]
   \<and> get_symbols [0, Suc (Suc 0)] (example_state [UnambiguousUsageRule])
       = (Some [Tag \<lparr>name = ''rel-1'', ident = 1\<rparr>, Branch \<lparr>name = ''devel'', ident = 3\<rparr>],
          example_state [UnambiguousUsageRule])"
proof -
  let ?s = "example_state [UnambiguousUsageRule]"
  have h1: "\<exists>stats \<in> set [0, Suc 0, Suc (Suc 0)]. unmatched ?s stats"
    using example_unmatched by simp
  have "get_symbols [0, Suc 0, Suc (Suc 0)] ?s =
        (None, ?s\<lparr>stderr := stderr ?s @ AmbiguityHeader #
                  map (\<lambda>stats. MismatchLine (objects ?s stats))
                    (filter (unmatched ?s) [0, Suc 0, Suc (Suc 0)])\<rparr>)"
    using get_symbols_all_or_nothing h1 by blast
  then have c1: "get_symbols [0, Suc 0, Suc (Suc 0)] ?s
       = (None, ?s\<lparr>stderr := [AmbiguityHeader, MismatchLine (example_stats ''mixed'' 2 2 2 0)]\<rparr>)"
    using example_unmatched by (simp add: example_state_def)
  have h2: "list_all (\<lambda>stats. \<not> unmatched ?s stats) [0, Suc (Suc 0)]"
    using example_unmatched by simp
  obtain symbols where g: "get_symbols [0, Suc (Suc 0)] ?s = (Some symbols, ?s)"
    and m: "map Some symbols = map (\<lambda>stats. fst (strategy_get_symbol stats ?s)) [0, Suc (Suc 0)]"
    using get_symbols_all_or_nothing h2 by blast
  have "map (\<lambda>stats. fst (strategy_get_symbol stats ?s)) [0, Suc (Suc 0)]
          = map Some [Tag \<lparr>name = ''rel-1'', ident = 1\<rparr>, Branch \<lparr>name = ''devel'', ident = 3\<rparr>]"
    by (simp add: strategy_get_symbol_def example_state_def example_stats_def)
  with m have "map Some symbols
      = map Some [Tag \<lparr>name = ''rel-1'', ident = 1\<rparr>, Branch \<lparr>name = ''devel'', ident = 3\<rparr>]"
    by simp
  then have "symbols = [Tag \<lparr>name = ''rel-1'', ident = 1\<rparr>, Branch \<lparr>name = ''devel'', ident = 3\<rparr>]"
    by (simp only: inj_map_eq_map [OF inj_Some])
  with g have c2: "get_symbols [0, Suc (Suc 0)] ?s
       = (Some [Tag \<lparr>name = ''rel-1'', ident = 1\<rparr>, Branch \<lparr>name = ''devel'', ident = 3\<rparr>], ?s)"
    by simp
  show ?thesis using h1 c1 h2 c2 by blast
qed

section \<open>The statistical rules\<close>

text \<open>
  Claim C4. With \<open>is_tag = tag_create_count > 0\<close> and
  \<open>is_branch = branch_create_count > 0 or branch_commit_count > 0\<close>,
  \<open>UnambiguousUsageRule\<close> returns \<open>None\<close> when both hold, a \<open>Branch\<close> when only
  \<open>is_branch\<close> holds, a \<open>Tag\<close> when only \<open>is_tag\<close> holds, and \<open>None\<close> when
  neither holds.
\<close>

theorem unambiguous_usage_cases:
  "(0 < tag_create_count (objects s stats)
      \<and> (0 < branch_create_count (objects s stats) \<or> 0 < branch_commit_count (objects s stats))
      \<longrightarrow> get_symbol UnambiguousUsageRule stats s = (None, s))
   \<and> (\<not> 0 < tag_create_count (objects s stats)
      \<and> (0 < branch_create_count (objects s stats) \<or> 0 < branch_commit_count (objects s stats))
      \<longrightarrow> get_symbol UnambiguousUsageRule stats s = (Some (Branch (symbol (objects s stats))), s))
   \<and> (0 < tag_create_count (objects s stats)
      \<and> \<not> (0 < branch_create_count (objects s stats) \<or> 0 < branch_commit_count (objects s stats))
      \<longrightarrow> get_symbol UnambiguousUsageRule stats s = (Some (Tag (symbol (objects s stats))), s))
   \<and> (\<not> 0 < tag_create_count (objects s stats)
      \<and> \<not> (0 < branch_create_count (objects s stats) \<or> 0 < branch_commit_count (objects s stats))
      \<longrightarrow> get_symbol UnambiguousUsageRule stats s = (None, s))"
  by (simp add: Let_def)

text \<open>The four cases of C4 on the four example objects.\<close>

theorem unambiguous_usage_cases_witness:
  "(0 < tag_create_count (objects (example_state []) 1)
      \<and> (0 < branch_create_count (objects (example_state []) 1)
          \<or> 0 < branch_commit_count (objects (example_state []) 1)))
   \<and> get_symbol UnambiguousUsageRule 1 (example_state []) = (None, example_state [])
   \<and> (\<not> 0 < tag_create_count (objects (example_state []) 2)
      \<and> (0 < branch_create_count (objects (example_state []) 2)
          \<or> 0 < branch_commit_count (objects (example_state []) 2)))
   \<and> get_symbol UnambiguousUsageRule 2 (example_state [])
       = (Some (Branch \<lparr>name = ''devel'', ident = 3\<rparr>), example_state [])
   \<and> (0 < tag_create_count (objects (example_state []) 0)
      \<and> \<not> (0 < branch_create_count (objects (example_state []) 0)
          \<or> 0 < branch_commit_count (objects (example_state []) 0)))
   \<and> get_symbol UnambiguousUsageRule 0 (example_state [])
       = (Some (Tag \<lparr>name = ''rel-1'', ident = 1\<rparr>), example_state [])
   \<and> (\<not> 0 < tag_create_count (objects (example_state []) 3)
      \<and> \<not> (0 < branch_create_count (objects (example_state []) 3)
          \<or> 0 < branch_commit_count (objects (example_state []) 3)))
   \<and> get_symbol UnambiguousUsageRule 3 (example_state []) = (None, example_state [])"
proof -
  let ?s = "example_state []"
  have o: "objects ?s 0 = example_stats ''rel-1'' 1 3 0 0"
    "objects ?s 1 = example_stats ''mixed'' 2 2 2 0"
    "objects ?s (Suc 0) = example_stats ''mixed'' 2 2 2 0"
    "objects ?s 2 = example_stats ''devel'' 3 0 1 4"
    "objects ?s 3 = example_stats ''unused'' 4 0 0 0"
    by (simp_all add: example_state_def eval_nat_numeral)
  have h1: "0 < tag_create_count (objects ?s 1)
      \<and> (0 < branch_create_count (objects ?s 1) \<or> 0 < branch_commit_count (objects ?s 1))"
    by (simp add: o example_stats_def)
  have h2: "\<not> 0 < tag_create_count (objects ?s 2)
      \<and> (0 < branch_create_count (objects ?s 2) \<or> 0 < branch_commit_count (objects ?s 2))"
    by (simp add: o example_stats_def)
  have h3: "0 < tag_create_count (objects ?s 0)
      \<and> \<not> (0 < branch_create_count (objects ?s 0) \<or> 0 < branch_commit_count (objects ?s 0))"
    by (simp add: o example_stats_def)
  have h4: "\<not> 0 < tag_create_count (objects ?s 3)
      \<and> \<not> (0 < branch_create_count (objects ?s 3) \<or> 0 < branch_commit_count (objects ?s 3))"
    by (simp add: o example_stats_def)
  have c1: "get_symbol UnambiguousUsageRule 1 ?s = (None, ?s)"
    using unambiguous_usage_cases [of ?s 1] h1 by blast
  have "get_symbol UnambiguousUsageRule 2 ?s = (Some (Branch (symbol (objects ?s 2))), ?s)"
    using unambiguous_usage_cases [of ?s 2] h2 by blast
  then have c2: "get_symbol UnambiguousUsageRule 2 ?s
      = (Some (Branch \<lparr>name = ''devel'', ident = 3\<rparr>), ?s)"
    by (simp add: o example_stats_def)
  have "get_symbol UnambiguousUsageRule 0 ?s = (Some (Tag (symbol (objects ?s 0))), ?s)"
    using unambiguous_usage_cases [of ?s 0] h3 by blast
  then have c3: "get_symbol UnambiguousUsageRule 0 ?s
      = (Some (Tag \<lparr>name = ''rel-1'', ident = 1\<rparr>), ?s)"
    by (simp add: o example_stats_def)
  have c4: "get_symbol UnambiguousUsageRule 3 ?s = (None, ?s)"
    using unambiguous_usage_cases [of ?s 3] h4 by blast
  show ?thesis using h1 c1 h2 c2 h3 c3 h4 c4 by blast
qed

text \<open>
  Claim C5. \<open>HeuristicStrategyRule\<close> never returns \<open>None\<close>: it returns a \<open>Tag\<close>
  when \<open>tag_create_count >= branch_create_count\<close> (so also when the two counts are
  equal, zero or not) and a \<open>Branch\<close> otherwise.
\<close>

theorem heuristic_never_abstains:
  "fst (get_symbol HeuristicStrategyRule stats s) \<noteq> None
   \<and> (branch_create_count (objects s stats) \<le> tag_create_count (objects s stats) \<longrightarrow>
        get_symbol HeuristicStrategyRule stats s = (Some (Tag (symbol (objects s stats))), s))
   \<and> (tag_create_count (objects s stats) = branch_create_count (objects s stats) \<longrightarrow>
        get_symbol HeuristicStrategyRule stats s = (Some (Tag (symbol (objects s stats))), s))
   \<and> (\<not> branch_create_count (objects s stats) \<le> tag_create_count (objects s stats) \<longrightarrow>
        get_symbol HeuristicStrategyRule stats s = (Some (Branch (symbol (objects s stats))), s))"
  by simp

text \<open>
  C5 on equal counts that are not zero (\<open>mixed\<close>), on counts that are both zero
  (\<open>unused\<close>) and on more branches than tags (\<open>devel\<close>).
\<close>

theorem heuristic_never_abstains_witness:
  "branch_create_count (objects (example_state []) 1) \<le> tag_create_count (objects (example_state []) 1)
   \<and> tag_create_count (objects (example_state []) 1) = branch_create_count (objects (example_state []) 1)
   \<and> get_symbol HeuristicStrategyRule 1 (example_state [])
       = (Some (Tag \<lparr>name = ''mixed'', ident = 2\<rparr>), example_state [])
   \<and> tag_create_count (objects (example_state []) 3) = branch_create_count (objects (example_state []) 3)
   \<and> get_symbol HeuristicStrategyRule 3 (example_state [])
       = (Some (Tag \<lparr>name = ''unused'', ident = 4\<rparr>), example_state [])
   \<and> \<not> branch_create_count (objects (example_state []) 2) \<le> tag_create_count (objects (example_state []) 2)
   \<and> get_symbol HeuristicStrategyRule 2 (example_state [])
       = (Some (Branch \<lparr>name = ''devel'', ident = 3\<rparr>), example_state [])"
proof -
  let ?s = "example_state []"
  have o: "objects ?s 1 = example_stats ''mixed'' 2 2 2 0"
    "objects ?s (Suc 0) = example_stats ''mixed'' 2 2 2 0"
    "objects ?s 2 = example_stats ''devel'' 3 0 1 4"
    "objects ?s 3 = example_stats ''unused'' 4 0 0 0"
    by (simp_all add: example_state_def eval_nat_numeral)
  have h1: "branch_create_count (objects ?s 1) \<le> tag_create_count (objects ?s 1)"
    and h2: "tag_create_count (objects ?s 1) = branch_create_count (objects ?s 1)"
    and h3: "tag_create_count (objects ?s 3) = branch_create_count (objects ?s 3)"
    and h4: "\<not> branch_create_count (objects ?s 2) \<le> tag_create_count (objects ?s 2)"
    by (simp_all add: o example_stats_def)
  have "get_symbol HeuristicStrategyRule 1 ?s = (Some (Tag (symbol (objects ?s 1))), ?s)"
    using heuristic_never_abstains [of 1 ?s] h1 by blast
  then have c1: "get_symbol HeuristicStrategyRule 1 ?s
       = (Some (Tag \<lparr>name = ''mixed'', ident = 2\<rparr>), ?s)"
    by (simp add: o example_stats_def)
  have "get_symbol HeuristicStrategyRule 3 ?s = (Some (Tag (symbol (objects ?s 3))), ?s)"
    using heuristic_never_abstains [of 3 ?s] h3 by blast
  then have c3: "get_symbol HeuristicStrategyRule 3 ?s
       = (Some (Tag \<lparr>name = ''unused'', ident = 4\<rparr>), ?s)"
    by (simp add: o example_stats_def)
  have "get_symbol HeuristicStrategyRule 2 ?s = (Some (Branch (symbol (objects ?s 2))), ?s)"
    using heuristic_never_abstains [of 2 ?s] h4 by blast
  then have c2: "get_symbol HeuristicStrategyRule 2 ?s
       = (Some (Branch \<lparr>name = ''devel'', ident = 3\<rparr>), ?s)"
    by (simp add: o example_stats_def)
  show ?thesis using h1 h2 h3 h4 c1 c2 c3 by blast
qed

text \<open>
  \<open>BranchIfCommitsRule\<close> returns a \<open>Branch\<close> when there was a commit on the symbol
  and \<open>None\<close> otherwise.
\<close>

theorem branch_if_commits_cases:
  "get_symbol BranchIfCommitsRule stats s =
     (if 0 < branch_commit_count (objects s stats)
      then Some (Branch (symbol (objects s stats))) else None, s)"
  by simp

section \<open>Catch-all rules\<close>

lemma catch_all_matches:
  assumes "AllBranchRule \<in> set (rules s) \<or> AllTagRule \<in> set (rules s)"
  shows "\<not> unmatched s stats"
proof
  assume u: "unmatched s stats"
  then have "\<forall>rule \<in> set (rules s). fst (get_symbol rule stats s) = None"
    by (simp add: unmatched_def list_all_iff)
  with assms show False by auto
qed

lemma get_symbols_success:
  assumes "\<forall>stats \<in> set symbol_stats. \<not> unmatched s stats"
  shows "get_symbols symbol_stats s =
           (Some (map (\<lambda>stats. the (fst (strategy_get_symbol stats s))) symbol_stats), s)"
proof -
  from assms have "filter (unmatched s) symbol_stats = []"
    by (simp add: filter_empty_conv)
  then show ?thesis by (simp add: get_symbols_eq)
qed

text \<open>
  Claim C7. When the chain contains \<open>AllBranchRule\<close> or \<open>AllTagRule\<close>,
  \<open>get_symbols\<close> does not fail: it returns a list with one typed symbol for each
  statistics object and writes nothing to \<open>sys.stderr\<close>. When the chain is
  \<open>AllBranchRule\<close> alone, every object becomes a \<open>Branch\<close> and the list is as long
  as the input.
\<close>

theorem catch_all_never_ambiguous:
  "(AllBranchRule \<in> set (rules s) \<or> AllTagRule \<in> set (rules s) \<longrightarrow>
      (\<exists>symbols. get_symbols symbol_stats s = (Some symbols, s)
         \<and> length symbols = length symbol_stats))
   \<and> (rules s = [AllBranchRule] \<longrightarrow>
      get_symbols symbol_stats s
        = (Some (map (\<lambda>stats. Branch (symbol (objects s stats))) symbol_stats), s)
      \<and> length (map (\<lambda>stats. Branch (symbol (objects s stats))) symbol_stats)
          = length symbol_stats)"
proof (intro conjI impI)
  assume "AllBranchRule \<in> set (rules s) \<or> AllTagRule \<in> set (rules s)"
  then have "\<forall>stats \<in> set symbol_stats. \<not> unmatched s stats"
    by (simp add: catch_all_matches)
  then show "\<exists>symbols. get_symbols symbol_stats s = (Some symbols, s)
         \<and> length symbols = length symbol_stats"
    by (simp add: get_symbols_success)
next
  assume r: "rules s = [AllBranchRule]"
  then have "\<forall>stats \<in> set symbol_stats. \<not> unmatched s stats"
    by (simp add: catch_all_matches)
  moreover have "\<And>stats. fst (strategy_get_symbol stats s) = Some (Branch (symbol (objects s stats)))"
    using r by (simp add: strategy_get_symbol_def)
  ultimately show "get_symbols symbol_stats s
        = (Some (map (\<lambda>stats. Branch (symbol (objects s stats))) symbol_stats), s)"
    by (simp add: get_symbols_success)
next
  show "length (map (\<lambda>stats. Branch (symbol (objects s stats))) symbol_stats)
          = length symbol_stats"
    by simp
qed

text \<open>
  C7 on the four example objects, for a chain that ends in \<open>AllTagRule\<close> and for the
  chain of \<open>AllBranchRule\<close> alone.
\<close>

theorem catch_all_never_ambiguous_witness:
  "(AllBranchRule \<in> set (rules (example_state [UnambiguousUsageRule, AllTagRule]))
      \<or> AllTagRule \<in> set (rules (example_state [UnambiguousUsageRule, AllTagRule])))
   \<and> (\<exists>symbols. get_symbols [0, 1, 2, 3] (example_state [UnambiguousUsageRule, AllTagRule])
          = (Some symbols, example_state [UnambiguousUsageRule, AllTagRule])
        \<and> length symbols = length [0::nat, 1, 2, 3])
   \<and> rules (example_state [AllBranchRule]) = [AllBranchRule]
   \<and> get_symbols [0, 1, 2, 3] (example_state [AllBranchRule])
       = (Some [Branch \<lparr>name = ''rel-1'', ident = 1\<rparr>, Branch \<lparr>name = ''mixed'', ident = 2\<rparr>,
                Branch \<lparr>name = ''devel'', ident = 3\<rparr>, Branch \<lparr>name = ''unused'', ident = 4\<rparr>],
          example_state [AllBranchRule])"
proof -
  let ?s = "example_state [UnambiguousUsageRule, AllTagRule]"
  let ?b = "example_state [AllBranchRule]"
  have h1: "AllBranchRule \<in> set (rules ?s) \<or> AllTagRule \<in> set (rules ?s)"
    by (simp add: example_state_def)
  have c1: "\<exists>symbols. get_symbols [0, 1, 2, 3] ?s = (Some symbols, ?s)
        \<and> length symbols = length [0::nat, 1, 2, 3]"
    using catch_all_never_ambiguous [of ?s "[0, 1, 2, 3]"] h1 by blast
  have h2: "rules ?b = [AllBranchRule]"
    by (simp add: example_state_def)
  have "get_symbols [0, 1, 2, 3] ?b
        = (Some (map (\<lambda>stats. Branch (symbol (objects ?b stats))) [0, 1, 2, 3]), ?b)"
    using catch_all_never_ambiguous [of ?b "[0, 1, 2, 3]"] h2 by blast
  moreover have "map (\<lambda>stats. Branch (symbol (objects ?b stats))) [0, 1, 2, 3]
      = [Branch \<lparr>name = ''rel-1'', ident = 1\<rparr>, Branch \<lparr>name = ''mixed'', ident = 2\<rparr>,
         Branch \<lparr>name = ''devel'', ident = 3\<rparr>, Branch \<lparr>name = ''unused'', ident = 4\<rparr>]"
    by (simp add: example_state_def example_stats_def eval_nat_numeral)
  ultimately have c2: "get_symbols [0, 1, 2, 3] ?b
       = (Some [Branch \<lparr>name = ''rel-1'', ident = 1\<rparr>, Branch \<lparr>name = ''mixed'', ident = 2\<rparr>,
                Branch \<lparr>name = ''devel'', ident = 3\<rparr>, Branch \<lparr>name = ''unused'', ident = 4\<rparr>], ?b)"
    by simp
  show ?thesis using h1 c1 h2 c2 by blast
qed

section \<open>One typed symbol for each input symbol\<close>

lemma symbol_of_construct: "symbol_of (construct action smb) = smb"
  by (cases action) simp_all

lemma get_symbol_wraps:
  "fst (get_symbol rule stats s) = Some smb \<Longrightarrow> symbol_of smb = symbol (objects s stats)"
  by (cases rule) (auto simp: Let_def symbol_of_construct split: if_splits)

lemma for_rules_wraps:
  "fst (for_rules rs stats s) = Some smb \<Longrightarrow> symbol_of smb = symbol (objects s stats)"
proof (induction rs)
  case Nil
  then show ?case by simp
next
  case (Cons rule rest)
  obtain r where r: "get_symbol rule stats s = (r, s)"
    using get_symbol_state [of rule stats s] by (cases "get_symbol rule stats s") simp
  show ?case
  proof (cases r)
    case None
    with Cons r show ?thesis by simp
  next
    case (Some c)
    with Cons.prems r have "c = smb" by simp
    with Some r get_symbol_wraps [of rule stats s smb] show ?thesis by simp
  qed
qed

lemma get_symbols_symbols:
  assumes "get_symbols symbol_stats s = (Some symbols, s')"
  shows "map symbol_of symbols = map (\<lambda>stats. symbol (objects s stats)) symbol_stats"
proof -
  have e: "filter (unmatched s) symbol_stats = []"
    using assms by (simp add: get_symbols_eq split: if_splits)
  then have m: "\<forall>stats \<in> set symbol_stats. \<not> unmatched s stats"
    by (simp add: filter_empty_conv)
  from e assms have
    "symbols = map (\<lambda>stats. the (fst (strategy_get_symbol stats s))) symbol_stats"
    by (auto simp: get_symbols_eq)
  moreover have "symbol_of (the (fst (strategy_get_symbol stats s))) = symbol (objects s stats)"
    if "stats \<in> set symbol_stats" for stats
  proof -
    from that m have "fst (strategy_get_symbol stats s) \<noteq> None"
      by (simp add: strategy_get_symbol_none)
    then obtain c where c: "fst (strategy_get_symbol stats s) = Some c" by blast
    then have "symbol_of c = symbol (objects s stats)"
      by (simp add: strategy_get_symbol_def for_rules_wraps)
    with c show ?thesis by simp
  qed
  ultimately show ?thesis by simp
qed

lemma example_get_symbols:
  "get_symbols [0, 1, 2, 3] (example_state [UnambiguousUsageRule, HeuristicStrategyRule])
     = (Some [Tag \<lparr>name = ''rel-1'', ident = 1\<rparr>, Tag \<lparr>name = ''mixed'', ident = 2\<rparr>,
              Branch \<lparr>name = ''devel'', ident = 3\<rparr>, Tag \<lparr>name = ''unused'', ident = 4\<rparr>],
        example_state [UnambiguousUsageRule, HeuristicStrategyRule])"
  by (simp add: get_symbols_def strategy_get_symbol_def example_state_def example_stats_def
      eval_nat_numeral)

lemma example_symbols:
  "map (\<lambda>stats. symbol (objects (example_state rs) stats)) [0, 1, 2, 3]
     = [\<lparr>name = ''rel-1'', ident = 1\<rparr>, \<lparr>name = ''mixed'', ident = 2\<rparr>,
        \<lparr>name = ''devel'', ident = 3\<rparr>, \<lparr>name = ''unused'', ident = 4\<rparr>]"
  by (simp add: example_state_def example_stats_def eval_nat_numeral)

text \<open>
  Claim C8. When the symbols of the input objects are pairwise distinct and
  \<open>get_symbols\<close> returns a list, the list is as long as the input, its typed symbols
  wrap pairwise distinct symbols, these are exactly the symbols of the input, and each
  input symbol is wrapped by exactly one element of the list.
\<close>

theorem get_symbols_one_to_one:
  "get_symbols symbol_stats s = (Some symbols, s') \<longrightarrow>
   distinct (map (\<lambda>stats. symbol (objects s stats)) symbol_stats) \<longrightarrow>
     length symbols = length symbol_stats
     \<and> distinct (map symbol_of symbols)
     \<and> symbol_of ` set symbols = (\<lambda>stats. symbol (objects s stats)) ` set symbol_stats
     \<and> (\<forall>stats \<in> set symbol_stats.
          length (filter (\<lambda>c. symbol_of c = symbol (objects s stats)) symbols) = 1)"
proof (intro impI)
  assume g: "get_symbols symbol_stats s = (Some symbols, s')"
    and d: "distinct (map (\<lambda>stats. symbol (objects s stats)) symbol_stats)"
  have m: "map symbol_of symbols = map (\<lambda>stats. symbol (objects s stats)) symbol_stats"
    using g by (rule get_symbols_symbols)
  have l: "length symbols = length symbol_stats"
    using m by (metis length_map)
  have dd: "distinct (map symbol_of symbols)"
    using m d by simp
  have i: "symbol_of ` set symbols = (\<lambda>stats. symbol (objects s stats)) ` set symbol_stats"
    using m by (metis set_map)
  have one: "length (filter (\<lambda>c. symbol_of c = symbol (objects s stats)) symbols) = 1"
    if "stats \<in> set symbol_stats" for stats
  proof -
    let ?y = "symbol (objects s stats)"
    have "length (filter (\<lambda>c. symbol_of c = ?y) symbols)
            = length (filter (\<lambda>x. x = ?y) (map symbol_of symbols))"
      by (simp add: filter_map comp_def)
    also have "\<dots> = card ({x. x = ?y} \<inter> set (map symbol_of symbols))"
      using dd by (rule distinct_length_filter)
    also have "{x. x = ?y} \<inter> set (map symbol_of symbols) = {?y}"
      using that i by auto
    finally show ?thesis by simp
  qed
  show "length symbols = length symbol_stats
     \<and> distinct (map symbol_of symbols)
     \<and> symbol_of ` set symbols = (\<lambda>stats. symbol (objects s stats)) ` set symbol_stats
     \<and> (\<forall>stats \<in> set symbol_stats.
          length (filter (\<lambda>c. symbol_of c = symbol (objects s stats)) symbols) = 1)"
    using l dd i one by blast
qed

text \<open>
  C8 on the four example objects and the chain \<open>UnambiguousUsageRule\<close>,
  \<open>HeuristicStrategyRule\<close>.
\<close>

theorem get_symbols_one_to_one_witness:
  "get_symbols [0, 1, 2, 3] (example_state [UnambiguousUsageRule, HeuristicStrategyRule])
     = (Some [Tag \<lparr>name = ''rel-1'', ident = 1\<rparr>, Tag \<lparr>name = ''mixed'', ident = 2\<rparr>,
              Branch \<lparr>name = ''devel'', ident = 3\<rparr>, Tag \<lparr>name = ''unused'', ident = 4\<rparr>],
        example_state [UnambiguousUsageRule, HeuristicStrategyRule])
   \<and> distinct (map (\<lambda>stats. symbol (objects
         (example_state [UnambiguousUsageRule, HeuristicStrategyRule]) stats)) [0, 1, 2, 3])
   \<and> length [Tag \<lparr>name = ''rel-1'', ident = 1\<rparr>, Tag \<lparr>name = ''mixed'', ident = 2\<rparr>,
              Branch \<lparr>name = ''devel'', ident = 3\<rparr>, Tag \<lparr>name = ''unused'', ident = 4\<rparr>]
       = length [0 :: nat, 1, 2, 3]
   \<and> distinct (map symbol_of
         [Tag \<lparr>name = ''rel-1'', ident = 1\<rparr>, Tag \<lparr>name = ''mixed'', ident = 2\<rparr>,
          Branch \<lparr>name = ''devel'', ident = 3\<rparr>, Tag \<lparr>name = ''unused'', ident = 4\<rparr>])
   \<and> length (filter (\<lambda>c. symbol_of c = symbol (objects
         (example_state [UnambiguousUsageRule, HeuristicStrategyRule]) 2))
         [Tag \<lparr>name = ''rel-1'', ident = 1\<rparr>, Tag \<lparr>name = ''mixed'', ident = 2\<rparr>,
          Branch \<lparr>name = ''devel'', ident = 3\<rparr>, Tag \<lparr>name = ''unused'', ident = 4\<rparr>]) = 1"
proof -
  let ?s = "example_state [UnambiguousUsageRule, HeuristicStrategyRule]"
  let ?symbols = "[Tag \<lparr>name = ''rel-1'', ident = 1\<rparr>, Tag \<lparr>name = ''mixed'', ident = 2\<rparr>,
          Branch \<lparr>name = ''devel'', ident = 3\<rparr>, Tag \<lparr>name = ''unused'', ident = 4\<rparr>]"
  have h1: "get_symbols [0, 1, 2, 3] ?s = (Some ?symbols, ?s)"
    by (rule example_get_symbols)
  have h2: "distinct (map (\<lambda>stats. symbol (objects ?s stats)) [0, 1, 2, 3])"
    unfolding example_symbols by simp
  have c: "length ?symbols = length [0 :: nat, 1, 2, 3]
     \<and> distinct (map symbol_of ?symbols)
     \<and> symbol_of ` set ?symbols = (\<lambda>stats. symbol (objects ?s stats)) ` set [0, 1, 2, 3]
     \<and> (\<forall>stats \<in> set [0, 1, 2, 3].
          length (filter (\<lambda>c. symbol_of c = symbol (objects ?s stats)) ?symbols) = 1)"
    using get_symbols_one_to_one [of "[0, 1, 2, 3]" ?s ?symbols ?s] h1 h2 by blast
  then have "length (filter (\<lambda>c. symbol_of c = symbol (objects ?s 2)) ?symbols) = 1"
    by simp
  with h1 h2 c show ?thesis by blast
qed


text \<open>
  Claim C9. When \<open>get_symbols\<close> returns a list, its \<open>i\<close>-th element wraps the
  symbol of the \<open>i\<close>-th input object.
\<close>

theorem get_symbols_keeps_order:
  "get_symbols symbol_stats s = (Some symbols, s') \<longrightarrow>
     length symbols = length symbol_stats
     \<and> (\<forall>i < length symbol_stats.
          symbol_of (symbols ! i) = symbol (objects s (symbol_stats ! i)))"
proof
  assume g: "get_symbols symbol_stats s = (Some symbols, s')"
  have m: "map symbol_of symbols = map (\<lambda>stats. symbol (objects s stats)) symbol_stats"
    using g by (rule get_symbols_symbols)
  have l: "length symbols = length symbol_stats"
    using m by (metis length_map)
  have "symbol_of (symbols ! i) = symbol (objects s (symbol_stats ! i))"
    if "i < length symbol_stats" for i
  proof -
    from that l have "map symbol_of symbols ! i = symbol_of (symbols ! i)" by simp
    moreover from that have
      "map (\<lambda>stats. symbol (objects s stats)) symbol_stats ! i = symbol (objects s (symbol_stats ! i))"
      by simp
    ultimately show ?thesis using m by simp
  qed
  with l show "length symbols = length symbol_stats
     \<and> (\<forall>i < length symbol_stats.
          symbol_of (symbols ! i) = symbol (objects s (symbol_stats ! i)))"
    by blast
qed

text \<open>C9 at the third of the four example objects.\<close>

theorem get_symbols_keeps_order_witness:
  "get_symbols [0, 1, 2, 3] (example_state [UnambiguousUsageRule, HeuristicStrategyRule])
     = (Some [Tag \<lparr>name = ''rel-1'', ident = 1\<rparr>, Tag \<lparr>name = ''mixed'', ident = 2\<rparr>,
              Branch \<lparr>name = ''devel'', ident = 3\<rparr>, Tag \<lparr>name = ''unused'', ident = 4\<rparr>],
        example_state [UnambiguousUsageRule, HeuristicStrategyRule])
   \<and> (2 :: nat) < length [0 :: nat, 1, 2, 3]
   \<and> symbol_of ([Tag \<lparr>name = ''rel-1'', ident = 1\<rparr>, Tag \<lparr>name = ''mixed'', ident = 2\<rparr>,
              Branch \<lparr>name = ''devel'', ident = 3\<rparr>, Tag \<lparr>name = ''unused'', ident = 4\<rparr>] ! 2)
       = symbol (objects (example_state [UnambiguousUsageRule, HeuristicStrategyRule])
                   ([0, 1, 2, 3] ! 2))"
proof -
  let ?s = "example_state [UnambiguousUsageRule, HeuristicStrategyRule]"
  let ?symbols = "[Tag \<lparr>name = ''rel-1'', ident = 1\<rparr>, Tag \<lparr>name = ''mixed'', ident = 2\<rparr>,
          Branch \<lparr>name = ''devel'', ident = 3\<rparr>, Tag \<lparr>name = ''unused'', ident = 4\<rparr>]"
  have h1: "get_symbols [0, 1, 2, 3] ?s = (Some ?symbols, ?s)"
    by (rule example_get_symbols)
  have h2: "(2 :: nat) < length [0 :: nat, 1, 2, 3]"
    by simp
  have "\<forall>i < length [0 :: nat, 1, 2, 3].
          symbol_of (?symbols ! i) = symbol (objects ?s ([0, 1, 2, 3] ! i))"
    using get_symbols_keeps_order [of "[0, 1, 2, 3]" ?s ?symbols ?s] h1 by blast
  with h2 have "symbol_of (?symbols ! 2) = symbol (objects ?s ([0, 1, 2, 3] ! 2))"
    by blast
  with h1 h2 show ?thesis by blast
qed


text \<open>
  For an empty input \<open>get_symbols\<close> returns the empty list, whatever the chain is.
\<close>

theorem empty_input_succeeds: "get_symbols [] s = (Some [], s)"
  by (simp add: get_symbols_def)

text \<open>
  \<open>get_symbols\<close> does not look for duplicates: a statistics object that occurs
  twice in the input is answered twice.
\<close>

theorem repeated_input_is_repeated:
  "get_symbols [0, 0] (example_state [AllBranchRule])
     = (Some [Branch \<lparr>name = ''rel-1'', ident = 1\<rparr>, Branch \<lparr>name = ''rel-1'', ident = 1\<rparr>],
        example_state [AllBranchRule])"
  by (simp add: get_symbols_def strategy_get_symbol_def example_state_def example_stats_def)

section \<open>What evaluation leaves unchanged\<close>

text \<open>
  Claim C10. \<open>get_symbol\<close> of every rule and \<open>_get_symbol\<close> return the state they
  were given. \<open>get_symbols\<close> returns a state with the same rule list and the same
  statistics objects, whether it returns a list or \<open>None\<close>: only \<open>stderr\<close> can
  differ.
\<close>

theorem evaluation_changes_only_stderr:
  "snd (get_symbol rule stats s) = s
   \<and> snd (strategy_get_symbol stats s) = s
   \<and> rules (snd (get_symbols symbol_stats s)) = rules s
   \<and> objects (snd (get_symbols symbol_stats s)) = objects s
   \<and> snd (get_symbols symbol_stats s) = s\<lparr>stderr := stderr (snd (get_symbols symbol_stats s))\<rparr>"
  by (simp add: get_symbol_state strategy_get_symbol_state get_symbols_eq)

section \<open>Regexp rules and their patterns\<close>

lemma compile_foo_or_bar:
  "re_compile ''^foo|bar$'' =
     Compiled (RAlt
       (RCat RBol (RCat (RLit CHR ''f'') (RCat (RLit CHR ''o'') (RCat (RLit CHR ''o'') REmpty))))
       (RCat (RLit CHR ''b'') (RCat (RLit CHR ''a'') (RCat (RLit CHR ''r'') (RCat REol REmpty)))))"
  "re_compile ''foo|bar'' =
     Compiled (RAlt
       (RCat (RLit CHR ''f'') (RCat (RLit CHR ''o'') (RCat (RLit CHR ''o'') REmpty)))
       (RCat (RLit CHR ''b'') (RCat (RLit CHR ''a'') (RCat (RLit CHR ''r'') REmpty))))"
  by code_simp+

lemma compile_foo:
  "re_compile ''^foo$'' =
     Compiled (RCat RBol (RCat (RLit CHR ''f'') (RCat (RLit CHR ''o'') (RCat (RLit CHR ''o'')
       (RCat REol REmpty)))))"
  by code_simp

lemma compile_backslash:
  "re_compile [CHR 0x5C] = ReError"
  "re_compile (''^'' @ [CHR 0x5C] @ ''$'') = Compiled (RCat RBol (RCat (RLit CHR ''$'') REmpty))"
  by code_simp+

lemma named_state_name: "name (symbol (objects (named_state n) stats)) = n"
  "symbol (objects (named_state n) stats) = \<lparr>name = n, ident = 0\<rparr>"
  by (simp_all add: named_state_def example_stats_def)

text \<open>
  Claim C3, which the code breaks. The pattern \<open>foo|bar\<close> does not match the whole name
  \<open>foobar\<close>, yet \<open>ForceBranchRegexpStrategyRule("foo|bar")\<close> returns a \<open>Branch\<close>
  for the symbol \<open>foobar\<close>: in \<open>^foo|bar$\<close> each anchor belongs to one alternative
  only. The pattern \<open>foo\<close> does not match the whole of \<open>foo\<close> followed by a
  newline, yet the rule applies to that name, since \<open>$\<close> also matches before a
  final newline.
\<close>

theorem alternation_is_not_anchored:
  "(\<exists>regexp. re_compile ''foo|bar'' = Compiled regexp \<and> \<not> matches_entire regexp ''foobar'')
   \<and> (\<exists>rule. ForceBranchRegexpStrategyRule ''foo|bar'' = Some (Inr rule)
        \<and> get_symbol rule 0 (named_state ''foobar'')
            = (Some (Branch \<lparr>name = ''foobar'', ident = 0\<rparr>), named_state ''foobar''))
   \<and> (\<exists>regexp. re_compile ''foo'' = Compiled regexp
        \<and> \<not> matches_entire regexp (''foo'' @ [newline]))
   \<and> (\<exists>rule. ForceBranchRegexpStrategyRule ''foo'' = Some (Inr rule)
        \<and> get_symbol rule 0 (named_state (''foo'' @ [newline]))
            = (Some (Branch \<lparr>name = ''foo'' @ [newline], ident = 0\<rparr>),
               named_state (''foo'' @ [newline])))"
proof (intro conjI)
  have "\<not> matches_entire (RAlt
       (RCat (RLit CHR ''f'') (RCat (RLit CHR ''o'') (RCat (RLit CHR ''o'') REmpty)))
       (RCat (RLit CHR ''b'') (RCat (RLit CHR ''a'') (RCat (RLit CHR ''r'') REmpty)))) ''foobar''"
    by code_simp
  then show "\<exists>regexp. re_compile ''foo|bar'' = Compiled regexp \<and> \<not> matches_entire regexp ''foobar''"
    using compile_foo_or_bar by simp
next
  have "re_match (RAlt
       (RCat RBol (RCat (RLit CHR ''f'') (RCat (RLit CHR ''o'') (RCat (RLit CHR ''o'') REmpty))))
       (RCat (RLit CHR ''b'') (RCat (RLit CHR ''a'') (RCat (RLit CHR ''r'') (RCat REol REmpty)))))
       ''foobar''"
    by code_simp
  then show "\<exists>rule. ForceBranchRegexpStrategyRule ''foo|bar'' = Some (Inr rule)
        \<and> get_symbol rule 0 (named_state ''foobar'')
            = (Some (Branch \<lparr>name = ''foobar'', ident = 0\<rparr>), named_state ''foobar'')"
    using compile_foo_or_bar
    by (simp add: ForceBranchRegexpStrategyRule_def RegexpStrategyRule_init_def named_state_name)
next
  have "re_compile ''foo'' = Compiled (RCat (RLit CHR ''f'') (RCat (RLit CHR ''o'')
          (RCat (RLit CHR ''o'') REmpty)))"
    by code_simp
  moreover have "\<not> matches_entire (RCat (RLit CHR ''f'') (RCat (RLit CHR ''o'')
          (RCat (RLit CHR ''o'') REmpty))) (''foo'' @ [newline])"
    by code_simp
  ultimately show "\<exists>regexp. re_compile ''foo'' = Compiled regexp
        \<and> \<not> matches_entire regexp (''foo'' @ [newline])"
    by simp
next
  have "re_match (RCat RBol (RCat (RLit CHR ''f'') (RCat (RLit CHR ''o'') (RCat (RLit CHR ''o'')
       (RCat REol REmpty))))) (''foo'' @ [newline])"
    by code_simp
  then show "\<exists>rule. ForceBranchRegexpStrategyRule ''foo'' = Some (Inr rule)
        \<and> get_symbol rule 0 (named_state (''foo'' @ [newline]))
            = (Some (Branch \<lparr>name = ''foo'' @ [newline], ident = 0\<rparr>),
               named_state (''foo'' @ [newline]))"
    using compile_foo
    by (simp add: ForceBranchRegexpStrategyRule_def RegexpStrategyRule_init_def named_state_name)
qed

text \<open>
  Claim C6, which the code breaks. A single backslash is not a valid regular expression,
  yet the rule is constructed: the backslash escapes the \<open>$\<close> that \<open>__init__\<close>
  appends, and the rule applies to the symbol named \<open>$\<close>.
\<close>

theorem trailing_backslash_is_accepted:
  "re_compile [CHR 0x5C] = ReError
   \<and> (\<exists>rule. ForceBranchRegexpStrategyRule [CHR 0x5C] = Some (Inr rule)
        \<and> get_symbol rule 0 (named_state ''$'')
            = (Some (Branch \<lparr>name = ''$'', ident = 0\<rparr>), named_state ''$''))"
proof
  show "re_compile [CHR 0x5C] = ReError"
    by (rule compile_backslash)
next
  have "re_match (RCat RBol (RCat (RLit CHR ''$'') REmpty)) ''$''"
    by code_simp
  then show "\<exists>rule. ForceBranchRegexpStrategyRule [CHR 0x5C] = Some (Inr rule)
        \<and> get_symbol rule 0 (named_state ''$'')
            = (Some (Branch \<lparr>name = ''$'', ident = 0\<rparr>), named_state ''$'')"
    using compile_backslash
    by (simp add: ForceBranchRegexpStrategyRule_def RegexpStrategyRule_init_def named_state_name)
qed

text \<open>
  \<open>ForceBranchRegexpStrategyRule("foo")\<close> applies to the name \<open>foo\<close> and to neither
  \<open>foobar\<close> nor \<open>xfoo\<close>.
\<close>

theorem force_branch_foo_examples:
  "\<exists>rule. ForceBranchRegexpStrategyRule ''foo'' = Some (Inr rule)
     \<and> fst (get_symbol rule 0 (named_state ''foo'')) = Some (Branch \<lparr>name = ''foo'', ident = 0\<rparr>)
     \<and> fst (get_symbol rule 0 (named_state ''foobar'')) = None
     \<and> fst (get_symbol rule 0 (named_state ''xfoo'')) = None"
proof -
  let ?r = "RCat RBol (RCat (RLit CHR ''f'') (RCat (RLit CHR ''o'') (RCat (RLit CHR ''o'')
       (RCat REol REmpty))))"
  have "re_match ?r ''foo''" "\<not> re_match ?r ''foobar''" "\<not> re_match ?r ''xfoo''"
    by code_simp+
  then show ?thesis
    using compile_foo
    by (simp add: ForceBranchRegexpStrategyRule_def RegexpStrategyRule_init_def named_state_name)
qed

text \<open>A pattern with an unbalanced group is refused when the rule is constructed.\<close>

theorem unbalanced_group_is_fatal:
  "ForceBranchRegexpStrategyRule ''(foo'' = Some (Inl (FatalError ''(foo''))"
proof -
  have "re_compile ''^(foo$'' = ReError" by code_simp
  then show ?thesis
    by (simp add: ForceBranchRegexpStrategyRule_def RegexpStrategyRule_init_def)
qed

text \<open>
  A pattern of ordinary characters is anchored as the docstring of \<open>__init__\<close>
  says, up to the newline that \<open>$\<close> lets pass: the rule applies to the name that
  equals the pattern, to that name followed by a newline, and to no other name.
\<close>

lemma parse_re_ordinary:
  "list_all ordinary cs \<Longrightarrow>
   parse_re stack alts items False (cs @ rest)
     = parse_re stack alts (rev (map RLit cs) @ items) False rest"
proof (induction cs arbitrary: items)
  case Nil
  show ?case by simp
next
  case (Cons c cs)
  then have "parse_re stack alts items False ((c # cs) @ rest)
      = parse_re stack alts (RLit c # items) False (cs @ rest)"
    by (simp add: ordinary_def)
  with Cons show ?case by simp
qed

lemma compile_ordinary:
  assumes "list_all ordinary p"
  shows "re_compile (''^'' @ p @ ''$'') = Compiled (mk_seq (RBol # map RLit p @ [REol]))"
proof -
  have "re_compile (''^'' @ p @ ''$'') = parse_re [] [] [RBol] False (p @ ''$'')"
    by (simp add: re_compile_def)
  also have "\<dots> = parse_re [] [] (rev (map RLit p) @ [RBol]) False ''$''"
    using assms by (rule parse_re_ordinary)
  also have "\<dots> = Compiled (close_group [] (REol # rev (map RLit p) @ [RBol]))"
    by simp
  also have "close_group [] (REol # rev (map RLit p) @ [RBol]) = mk_seq (RBol # map RLit p @ [REol])"
    by (simp add: close_group_def rev_map)
  finally show ?thesis .
qed

lemma re_ends_Nil: "re_ends r s [] = []"
  by (induction r) simp_all

lemma re_ends_literals:
  "re_ends (mk_seq (map RLit p @ rs)) s [i]
     = (if take (length p) (drop i s) = p
        then re_ends (mk_seq rs) s [i + length p] else [])"
proof (induction p arbitrary: i)
  case Nil
  show ?case by simp
next
  case (Cons c p)
  show ?case
  proof (cases "i < length s \<and> s ! i = c")
    case True
    then have d: "drop i s = c # drop (Suc i) s"
      by (metis Cons_nth_drop_Suc)
    from True have "re_ends (mk_seq (map RLit (c # p) @ rs)) s [i]
        = re_ends (mk_seq (map RLit p @ rs)) s [Suc i]"
      by simp
    also have "\<dots> = (if take (length p) (drop (Suc i) s) = p
        then re_ends (mk_seq rs) s [Suc i + length p] else [])"
      by (rule Cons.IH)
    finally show ?thesis using d by simp
  next
    case False
    then have "re_ends (mk_seq (map RLit (c # p) @ rs)) s [i] = []"
      by (auto simp: re_ends_Nil)
    moreover have "take (length (c # p)) (drop i s) \<noteq> c # p"
    proof
      assume a: "take (length (c # p)) (drop i s) = c # p"
      have l: "i < length s"
      proof (rule ccontr)
        assume "\<not> i < length s"
        then have "drop i s = []" by simp
        with a show False by simp
      qed
      then have "drop i s = s ! i # drop (Suc i) s"
        by (metis Cons_nth_drop_Suc)
      with a have "s ! i = c" by simp
      with l False show False by simp
    qed
    ultimately show ?thesis by simp
  qed
qed

lemma match_ordinary:
  "re_match (mk_seq (RBol # map RLit p @ [REol])) s = (s = p \<or> s = p @ [newline])"
proof -
  have "re_ends (mk_seq (RBol # map RLit p @ [REol])) s [0]
      = re_ends (mk_seq (map RLit p @ [REol])) s [0]"
    by simp
  also have "\<dots> = (if take (length p) s = p
        then re_ends (mk_seq [REol]) s [length p] else [])"
    using re_ends_literals [of p "[REol]" s 0] by simp
  finally have e: "re_ends (mk_seq (RBol # map RLit p @ [REol])) s [0]
      = (if take (length p) s = p
        then re_ends (mk_seq [REol]) s [length p] else [])" .
  show ?thesis
  proof (cases "take (length p) s = p")
    case False
    then have "s \<noteq> p" "s \<noteq> p @ [newline]" by auto
    with False e show ?thesis by (simp add: re_match_def)
  next
    case True
    then obtain t where t: "s = p @ t"
      by (metis append_take_drop_id)
    have "re_match (mk_seq (RBol # map RLit p @ [REol])) s
        = (length p = length s \<or> (Suc (length p) = length s \<and> s ! length p = newline))"
      using True e by (simp add: re_match_def)
    also have "\<dots> = (t = [] \<or> t = [newline])"
      using t by (cases t) (auto simp: nth_append)
    also have "\<dots> = (s = p \<or> s = p @ [newline])"
      using t by simp
    finally show ?thesis .
  qed
qed

theorem literal_pattern_is_anchored:
  "list_all ordinary pattern \<longrightarrow>
     (\<exists>rule. RegexpStrategyRule_init pattern action = Some (Inr rule)
        \<and> (\<forall>stats s. get_symbol rule stats s =
             (if name (symbol (objects s stats)) = pattern
                 \<or> name (symbol (objects s stats)) = pattern @ [newline]
              then Some (construct action (symbol (objects s stats))) else None, s)))"
proof
  let ?rule = "RegexpStrategyRule (mk_seq (RBol # map RLit pattern @ [REol])) action"
  assume "list_all ordinary pattern"
  then have "RegexpStrategyRule_init pattern action = Some (Inr ?rule)"
    using compile_ordinary [of pattern] by (simp add: RegexpStrategyRule_init_def)
  moreover have "get_symbol ?rule stats s =
             (if name (symbol (objects s stats)) = pattern
                 \<or> name (symbol (objects s stats)) = pattern @ [newline]
              then Some (construct action (symbol (objects s stats))) else None, s)" for stats s
    using match_ordinary [of pattern "name (symbol (objects s stats))"] by simp
  ultimately show "\<exists>rule. RegexpStrategyRule_init pattern action = Some (Inr rule)
        \<and> (\<forall>stats s. get_symbol rule stats s =
             (if name (symbol (objects s stats)) = pattern
                 \<or> name (symbol (objects s stats)) = pattern @ [newline]
              then Some (construct action (symbol (objects s stats))) else None, s))"
    by blast
qed

text \<open>The pattern \<open>rel-1\<close> and the example symbols \<open>rel-1\<close> and \<open>mixed\<close>.\<close>

theorem literal_pattern_is_anchored_witness:
  "list_all ordinary ''rel-1''
   \<and> (\<exists>rule. RegexpStrategyRule_init ''rel-1'' ExcludedSymbolClass = Some (Inr rule)
        \<and> get_symbol rule 0 (example_state [])
            = (Some (ExcludedSymbol \<lparr>name = ''rel-1'', ident = 1\<rparr>), example_state [])
        \<and> get_symbol rule 1 (example_state []) = (None, example_state []))"
proof -
  have h: "list_all ordinary ''rel-1''"
    by (simp add: ordinary_def)
  obtain rule where r: "RegexpStrategyRule_init ''rel-1'' ExcludedSymbolClass = Some (Inr rule)"
    and g: "\<And>stats s. get_symbol rule stats s =
             (if name (symbol (objects s stats)) = ''rel-1''
                 \<or> name (symbol (objects s stats)) = ''rel-1'' @ [newline]
              then Some (construct ExcludedSymbolClass (symbol (objects s stats))) else None, s)"
    using literal_pattern_is_anchored [of "''rel-1''" ExcludedSymbolClass] h by blast
  have "get_symbol rule 0 (example_state [])
            = (Some (ExcludedSymbol \<lparr>name = ''rel-1'', ident = 1\<rparr>), example_state [])"
    unfolding g by (simp add: example_state_def example_stats_def)
  moreover have "get_symbol rule 1 (example_state []) = (None, example_state [])"
    unfolding g by (simp add: example_state_def example_stats_def)
  ultimately show ?thesis using h r by blast
qed

end
